theory Spec2Isabelle
  imports Main "HOL-Library.Sublist"
begin

section \<open>JavaScript values, errors and strings\<close>

text \<open>
  The scripts under \<open>src/scripts\<close> are JavaScript. Strings are modelled as byte
  strings (the UTF-8 encoding of the source text), so an emoji of the source is a short
  list of bytes.

  \<open>jserror\<close> is the type of the error objects: an \<open>Error\<close> made by
  \<open>new Error(msg)\<close> or by the chain client, and a \<open>TypeError\<close> raised by the
  language itself. Both carry a string \<open>message\<close>. The language lets a program
  throw any value, not only an error object; the type \<open>thrown\<close> below has them all.
\<close>

datatype jserror = Error string | TypeError string

fun message :: "jserror \<Rightarrow> string" where
  "message (Error m) = m"
| "message (TypeError m) = m"

fun isTypeError :: "jserror \<Rightarrow> bool" where
  "isTypeError (TypeError m) = True"
| "isTypeError (Error m) = False"

text \<open>
  The values a condition can take. \<open>JNum\<close> holds the integral numbers, \<open>JNaN\<close> the
  not-a-number value, \<open>JBigInt\<close> the values written \<open>2n\<close>; \<open>JObj\<close> is a reference
  to an object, here always a log entry or another record of the model.
\<close>

datatype 'a jsval =
    JUndefined
  | JNull
  | JBool bool
  | JNum int
  | JNaN
  | JBigInt int
  | JStr string
  | JObj 'a

text \<open>
  A value that is thrown, or with which a promise rejects. \<open>Obj e\<close> is an error
  object; the code reads nothing but \<open>message\<close> from what it catches, so any
  object whose property \<open>message\<close> holds a string behaves as the \<open>Error\<close> with
  that message. \<open>Value v\<close> is a value that has no property \<open>message\<close>:
  \<open>undefined\<close>, \<open>null\<close>, a boolean, a number, a string, or an object without
  one. An object whose \<open>message\<close> holds something that is not a string is not
  represented; no theorem below speaks about one.
\<close>

datatype thrown = Obj jserror | Value "unit jsval"

text \<open>The language's conversion to boolean, which \<open>!condition\<close> and \<open>a && b\<close> apply.\<close>

fun truthy :: "'a jsval \<Rightarrow> bool" where
  "truthy JUndefined = False"
| "truthy JNull = False"
| "truthy (JBool b) = b"
| "truthy (JNum n) = (n \<noteq> 0)"
| "truthy JNaN = False"
| "truthy (JBigInt n) = (n \<noteq> 0)"
| "truthy (JStr s) = (s \<noteq> [])"
| "truthy (JObj x) = True"

text \<open>An optional string argument or environment variable: absent is \<open>undefined\<close>.\<close>

fun ofString :: "string option \<Rightarrow> unit jsval" where
  "ofString None = JUndefined"
| "ofString (Some s) = JStr s"

fun ofObject :: "'a option \<Rightarrow> 'a jsval" where
  "ofObject None = JUndefined"
| "ofObject (Some x) = JObj x"

text \<open>\<open>s.includes(t)\<close>: \<open>t\<close> occurs in \<open>s\<close> as a contiguous run.\<close>

definition str_includes :: "string \<Rightarrow> string \<Rightarrow> bool" where
  "str_includes s t = sublist t s"

text \<open>
  The text that a template literal puts in the place of a property that is a string or
  is absent.
\<close>

fun templateText :: "string option \<Rightarrow> string" where
  "templateText None = ''undefined''"
| "templateText (Some s) = s"

text \<open>The decimal text of a number, as a template literal prints a count.\<close>

fun showNat :: "nat \<Rightarrow> string" where
  "showNat n =
     (if n < 10 then [char_of (48 + n)]
      else showNat (n div 10) @ [char_of (48 + n mod 10)])"

declare showNat.simps [simp del]

section \<open>Programs: state, exceptions and the console\<close>

text \<open>
  A piece of code is a function from the state before to its outcome and the state
  after. The outcome is \<open>Inl e\<close> when the code throws \<open>e\<close> (or the promise it
  returns rejects with \<open>e\<close>) and \<open>Inr v\<close> when it returns \<open>v\<close>. Changes made to
  the state before a throw stay, as in the language. A promise is modelled by the outcome
  it settles with, and \<open>await\<close> delivers that outcome.

  The type \<open>'e\<close> says what the code can throw. Code that throws nothing but error
  objects (the harness itself, the chain client, the scenarios of the phases) is a
  \<open>prog\<close>; code that can throw any value, such as a test function or a promise handed
  in from outside, has \<open>thrown\<close> for \<open>'e\<close>.
\<close>

type_synonym ('s, 'e, 'a) xprog = "'s \<Rightarrow> ('e + 'a) \<times> 's"

type_synonym ('s, 'a) prog = "('s, jserror, 'a) xprog"

definition ret :: "'a \<Rightarrow> ('s, 'e, 'a) xprog" where
  "ret x s = (Inr x, s)"

definition throw :: "'e \<Rightarrow> ('s, 'e, 'a) xprog" where
  "throw e s = (Inl e, s)"

definition andThen ::
  "('s, 'e, 'a) xprog \<Rightarrow> ('a \<Rightarrow> ('s, 'e, 'b) xprog) \<Rightarrow> ('s, 'e, 'b) xprog" where
  "andThen m f s = (case m s of (Inl e, s') \<Rightarrow> (Inl e, s') | (Inr x, s') \<Rightarrow> f x s')"

text \<open>
  \<open>try { m } catch (e) { h e }\<close>: the handler gets whatever \<open>m\<close> throws, and what
  the handler throws is what the statement throws.
\<close>

definition tryCatch ::
  "('s, 'e, 'a) xprog \<Rightarrow> ('e \<Rightarrow> ('s, 'f, 'a) xprog) \<Rightarrow> ('s, 'f, 'a) xprog" where
  "tryCatch m h s = (case m s of (Inl e, s') \<Rightarrow> h e s' | (Inr x, s') \<Rightarrow> (Inr x, s'))"

definition await :: "'e + 'a \<Rightarrow> ('s, 'e, 'a) xprog" where
  "await p s = (p, s)"

text \<open>An error object that is thrown is a thrown value.\<close>

definition anyValue :: "('s, 'a) prog \<Rightarrow> ('s, thrown, 'a) xprog" where
  "anyValue m s = (case m s of (Inl e, s') \<Rightarrow> (Inl (Obj e), s') | (Inr x, s') \<Rightarrow> (Inr x, s'))"

datatype out = Log string | Warn string | Err string

type_synonym console = "out list"

definition console_log :: "string \<Rightarrow> (console, 'e, unit) xprog" where
  "console_log line c = (Inr (), c @ [Log line])"

definition console_warn :: "string \<Rightarrow> (console, 'e, unit) xprog" where
  "console_warn line c = (Inr (), c @ [Warn line])"

definition console_error :: "string \<Rightarrow> (console, 'e, unit) xprog" where
  "console_error line c = (Inr (), c @ [Err line])"

text \<open>The symbols of the report, as UTF-8 bytes.\<close>

definition sym_test :: string where
  "sym_test = [CHR 0xF0, CHR 0x9F, CHR 0xA7, CHR 0xAA]"

definition sym_check :: string where
  "sym_check = [CHR 0xE2, CHR 0x9C, CHR 0x85]"

definition sym_cross :: string where
  "sym_cross = [CHR 0xE2, CHR 0x9D, CHR 0x8C]"

definition sym_chart :: string where
  "sym_chart = [CHR 0xF0, CHR 0x9F, CHR 0x93, CHR 0x8A]"

definition sym_warning :: string where
  "sym_warning = [CHR 0xE2, CHR 0x9A, CHR 0xA0, CHR 0xEF, CHR 0xB8, CHR 0x8F]"

definition sym_bullet :: string where
  "sym_bullet = [CHR 0xE2, CHR 0x80, CHR 0xA2]"

definition sym_clipboard :: string where
  "sym_clipboard = [CHR 0xF0, CHR 0x9F, CHR 0x93, CHR 0x8B]"

definition sym_person :: string where
  "sym_person = [CHR 0xF0, CHR 0x9F, CHR 0x91, CHR 0xA4]"

definition sym_boom :: string where
  "sym_boom = [CHR 0xF0, CHR 0x9F, CHR 0x92, CHR 0xA5]"

definition sym_wrench :: string where
  "sym_wrench = [CHR 0xF0, CHR 0x9F, CHR 0x94, CHR 0xA7]"

definition sym_crane :: string where
  "sym_crane = [CHR 0xF0, CHR 0x9F, CHR 0x8F, CHR 0x97, CHR 0xEF, CHR 0xB8, CHR 0x8F]"

definition sym_party :: string where
  "sym_party = [CHR 0xF0, CHR 0x9F, CHR 0x8E, CHR 0x89]"

definition sym_shield :: string where
  "sym_shield = [CHR 0xF0, CHR 0x9F, CHR 0x9B, CHR 0xA1, CHR 0xEF, CHR 0xB8, CHR 0x8F]"

definition sym_lock :: string where
  "sym_lock = [CHR 0xF0, CHR 0x9F, CHR 0x94, CHR 0x92]"

definition sym_money :: string where
  "sym_money = [CHR 0xF0, CHR 0x9F, CHR 0x92, CHR 0xB0]"

definition sym_hourglass :: string where
  "sym_hourglass = [CHR 0xE2, CHR 0x8F, CHR 0xB3]"

definition sym_lens :: string where
  "sym_lens = [CHR 0xF0, CHR 0x9F, CHR 0x94, CHR 0x8D]"

definition sym_memo :: string where
  "sym_memo = [CHR 0xF0, CHR 0x9F, CHR 0x93, CHR 0x9D]"

definition sym_fuel :: string where
  "sym_fuel = [CHR 0xE2, CHR 0x9B, CHR 0xBD]"

definition sym_id :: string where
  "sym_id = [CHR 0xF0, CHR 0x9F, CHR 0x86, CHR 0x94]"

definition dquote :: string where
  "dquote = [CHR 0x22]"

definition newline :: string where
  "newline = [CHR 0x0A]"

section \<open>The chain client\<close>

text \<open>
  The records the chain client hands out. A transaction that was sent carries its hash
  and the outcome of waiting for it; a receipt carries its logs; a log entry that the
  client decoded carries the arguments of the event.
\<close>

record eventArgs =
  apiId :: nat

record log =
  logAddress :: string
  topics :: "string list"
  logData :: string
  args :: "eventArgs option"

record receipt =
  blockNumber :: nat
  gasUsed :: nat
  logs :: "log list"

record tx =
  hash :: string
  wait :: "jserror + receipt"

record api =
  api_id :: nat
  endpoint :: string
  description :: string
  pricePerCall :: int
  stake :: int
  api_provider :: string
  active :: bool
  totalCalls :: nat
  successfulCalls :: nat
  createdAt :: nat

text \<open>
  The library \<open>ethers\<close> and the deployed contract are not part of the repository. They
  are a parameter of the model: each operation is given by the outcome of calling it
  (\<open>Inl\<close> when it throws or its promise rejects, which the library does with an
  error object). \<open>'p\<close> is the type of chain
  connections, \<open>'w\<close> of wallets, \<open>'c\<close> of contract bindings. \<open>parseLog\<close> returns
  the name of the decoded event, \<open>None\<close> for the library's \<open>null\<close>, or throws.
  \<open>createRandom\<close> is the private key of the wallet drawn in this run;
  \<open>toLocaleString\<close> is the number formatting of the runtime's locale, and
  \<open>toLowerCase\<close> is the runtime's \<open>String.prototype.toLowerCase\<close>, which folds
  the letters of every script; nothing is assumed about either.
\<close>

record ('p, 'w, 'c) ethers =
  JsonRpcProvider :: "string \<Rightarrow> jserror + 'p"
  Wallet :: "string option \<Rightarrow> 'p \<Rightarrow> jserror + 'w"
  createRandom :: "jserror + string"
  Contract :: "string \<Rightarrow> string list \<Rightarrow> 'w \<Rightarrow> jserror + 'c"
  connect :: "'c \<Rightarrow> 'w \<Rightarrow> jserror + 'c"
  address :: "'w \<Rightarrow> string"
  parseLog :: "'c \<Rightarrow> log \<Rightarrow> jserror + string option"
  registerAPI :: "'c \<Rightarrow> string \<Rightarrow> string \<Rightarrow> int \<Rightarrow> int \<Rightarrow> jserror + tx"
  nextApiId :: "'c \<Rightarrow> jserror + nat"
  getAPI :: "'c \<Rightarrow> nat \<Rightarrow> jserror + api"
  parseEther :: "string \<Rightarrow> int"
  formatEther :: "int \<Rightarrow> string"
  toLocaleString :: "nat \<Rightarrow> string"
  toLowerCase :: "string \<Rightarrow> string"

text \<open>A call into the library: its outcome, the state untouched.\<close>

definition call :: "'e + 'a \<Rightarrow> ('s, 'e, 'a) xprog" where
  "call r s = (r, s)"

text \<open>
  Reading a property of a value that is absent (\<open>undefined\<close> or \<open>null\<close>, as
  the first argument says) is a \<open>TypeError\<close>, with the text the V8 engine gives it.
\<close>

definition member :: "string \<Rightarrow> 'a option \<Rightarrow> string \<Rightarrow> ('s, 'a) prog" where
  "member absent obj name =
     (case obj of
        None \<Rightarrow>
          throw (TypeError (''Cannot read properties of '' @ absent @ '' (reading ''
                            @ [CHR 0x27] @ name @ [CHR 0x27] @ '')''))
      | Some x \<Rightarrow> ret x)"

text \<open>
  \<open>error.message\<close> for a caught value: the message of an error object; a
  \<open>TypeError\<close> when the value is \<open>undefined\<close> or \<open>null\<close>; and
  \<open>undefined\<close> (here \<open>None\<close>) for every other value, which has no such
  property.
\<close>

fun readMessage :: "thrown \<Rightarrow> ('s, string option) prog" where
  "readMessage (Obj e) = ret (Some (message e))"
| "readMessage (Value JUndefined) = member ''undefined'' None ''message''"
| "readMessage (Value JNull) = member ''null'' None ''message''"
| "readMessage (Value v) = ret None"

section \<open>Configuration, setup.js lines 5 to 31\<close>

record config =
  PRIVATE_KEY :: "string option"
  RPC_URL :: string
  CONTRACT_ADDRESS :: "string option"

text \<open>\<open>process.env\<close> maps the name of a variable to its text.\<close>

definition loadConfig :: "(string \<rightharpoonup> string) \<Rightarrow> config" where
  "loadConfig env =
     \<lparr>PRIVATE_KEY = env ''PRIVATE_KEY'',
      RPC_URL = (if truthy (ofString (env ''RPC_URL'')) then the (env ''RPC_URL'')
                 else ''https://ethereum-sepolia-rpc.publicnode.com''),
      CONTRACT_ADDRESS = env ''CONTRACT_ADDRESS''\<rparr>"

definition CONTRACT_ABI :: "string list" where
  "CONTRACT_ABI =
     [''function MIN_STAKE() view returns (uint256)'',
      ''function SLASH_PERCENTAGE() view returns (uint256)'',
      ''function WITHDRAWAL_DELAY() view returns (uint256)'',
      ''function nextApiId() view returns (uint256)'',
      ''function oracle() view returns (address)'',
      ''function owner() view returns (address)'',
      ''function registerAPI(string endpoint, string description, uint256 pricePerCall) payable'',
      ''function payForAPICall(uint256 apiId) payable'',
      ''function getAPI(uint256 apiId) view returns (tuple(uint256 id, string endpoint, string description, uint256 pricePerCall, uint256 stake, address provider, bool active, uint256 totalCalls, uint256 successfulCalls, uint256 createdAt))'',
      ''function providerStakes(address) view returns (uint256)'',
      ''event APIRegistered(uint256 indexed apiId, address indexed provider, string endpoint, uint256 stake)'',
      ''event APIPayment(uint256 indexed apiId, address indexed consumer, uint256 amount)'']"

section \<open>The harness object of \<open>setup.js\<close>\<close>

record results =
  passed :: nat
  failed :: nat
  errors :: "string list"

text \<open>
  The object \<open>this\<close> of class \<open>TestBase\<close>. A field that has not been assigned yet
  is \<open>None\<close>.
\<close>

record ('p, 'w, 'c) testBase =
  results :: results
  provider :: "'p option"
  wallet1 :: "'w option"
  contract1 :: "'c option"
  wallet2 :: "'w option"
  contract2 :: "'c option"

text \<open>The state of a run of the harness: the object and what was printed so far.\<close>

record ('p, 'w, 'c) hstate =
  this :: "('p, 'w, 'c) testBase"
  console :: console

text \<open>
  A test function handed to \<open>runTest\<close> prints, calls the chain and the primitives of
  the harness, and returns or throws. No test function of the repository reads or writes
  \<open>this.results\<close>, so a test function is a program over the console alone. It
  may throw any value.
\<close>

definition onConsole ::
  "(console, 'e, 'a) xprog \<Rightarrow> (('p, 'w, 'c) hstate, 'e, 'a) xprog" where
  "onConsole m s = (case m (console s) of (r, c') \<Rightarrow> (r, s\<lparr>console := c'\<rparr>))"

definition assign :: "(('p, 'w, 'c) testBase \<Rightarrow> ('p, 'w, 'c) testBase) \<Rightarrow>
    (('p, 'w, 'c) hstate, 'e, unit) xprog" where
  "assign f s = (Inr (), s\<lparr>this := f (this s)\<rparr>)"

text \<open>The object on which the constructor starts.\<close>

definition blankObject :: "('p, 'w, 'c) testBase" where
  "blankObject =
     \<lparr>results = \<lparr>passed = 0, failed = 0, errors = []\<rparr>,
      provider = None, wallet1 = None, contract1 = None, wallet2 = None, contract2 = None\<rparr>"

text \<open>\<open>TestBase.setupWallets\<close>, setup.js lines 44 to 60.\<close>

definition setupWallets ::
  "('p, 'w, 'c) ethers \<Rightarrow> config \<Rightarrow> (('p, 'w, 'c) hstate, unit) prog" where
  "setupWallets lib cfg =
     (if \<not> truthy (ofString (CONTRACT_ADDRESS cfg))
      then throw (Error (sym_cross @ '' Please set CONTRACT_ADDRESS in .env file''))
      else
        andThen (call (JsonRpcProvider lib (RPC_URL cfg))) (\<lambda>p.
        andThen (assign (\<lambda>t. t\<lparr>provider := Some p\<rparr>)) (\<lambda>_.
        andThen (call (Wallet lib (PRIVATE_KEY cfg) p)) (\<lambda>w1.
        andThen (assign (\<lambda>t. t\<lparr>wallet1 := Some w1\<rparr>)) (\<lambda>_.
        andThen (call (Contract lib (the (CONTRACT_ADDRESS cfg)) CONTRACT_ABI w1)) (\<lambda>c1.
        andThen (assign (\<lambda>t. t\<lparr>contract1 := Some c1\<rparr>)) (\<lambda>_.
        andThen (call (createRandom lib)) (\<lambda>key.
        andThen (call (Wallet lib (Some key) p)) (\<lambda>w2.
        andThen (assign (\<lambda>t. t\<lparr>wallet2 := Some w2\<rparr>)) (\<lambda>_.
        andThen (call (connect lib c1 w2)) (\<lambda>c2.
        andThen (assign (\<lambda>t. t\<lparr>contract2 := Some c2\<rparr>)) (\<lambda>_.
        andThen (onConsole (console_log
          (sym_clipboard @ '' Contract: '' @ the (CONTRACT_ADDRESS cfg)))) (\<lambda>_.
        andThen (onConsole (console_log
          (sym_person @ '' Wallet 1: '' @ address lib w1))) (\<lambda>_.
        onConsole (console_log
          (sym_person @ '' Wallet 2: '' @ address lib w2))))))))))))))))"

text \<open>The constructor of \<open>TestBase\<close>, setup.js lines 34 to 42.\<close>

definition newTestBase ::
  "('p, 'w, 'c) ethers \<Rightarrow> config \<Rightarrow> (('p, 'w, 'c) hstate, unit) prog" where
  "newTestBase lib cfg =
     andThen (assign (\<lambda>t. t\<lparr>results := \<lparr>passed = 0, failed = 0, errors = []\<rparr>\<rparr>)) (\<lambda>_.
     setupWallets lib cfg)"

definition incPassed :: "(('p, 'w, 'c) hstate, 'e, unit) xprog" where
  "incPassed =
     assign (\<lambda>t. t\<lparr>results := (results t)\<lparr>passed := passed (results t) + 1\<rparr>\<rparr>)"

definition incFailed :: "(('p, 'w, 'c) hstate, 'e, unit) xprog" where
  "incFailed =
     assign (\<lambda>t. t\<lparr>results := (results t)\<lparr>failed := failed (results t) + 1\<rparr>\<rparr>)"

definition pushError :: "string \<Rightarrow> (('p, 'w, 'c) hstate, 'e, unit) xprog" where
  "pushError line =
     assign (\<lambda>t. t\<lparr>results := (results t)\<lparr>errors := errors (results t) @ [line]\<rparr>\<rparr>)"

text \<open>
  \<open>TestBase.runTest\<close>, setup.js lines 62 to 76. The \<open>catch\<close> block reads
  \<open>error.message\<close> twice, on lines 71 and 73, whatever was caught.
\<close>

definition runTest ::
  "string \<Rightarrow> (console, thrown, unit) xprog \<Rightarrow> (('p, 'w, 'c) hstate, bool) prog" where
  "runTest testName testFunction =
     tryCatch
       (andThen (onConsole (console_log (newline @ sym_test @ '' '' @ testName @ ''...''))) (\<lambda>_.
        andThen (onConsole testFunction) (\<lambda>_.
        andThen (onConsole (console_log (sym_check @ '' PASSED: '' @ testName))) (\<lambda>_.
        andThen incPassed (\<lambda>_.
        ret True)))))
       (\<lambda>error.
        andThen (onConsole (console_log (sym_cross @ '' FAILED: '' @ testName))) (\<lambda>_.
        andThen (readMessage error) (\<lambda>msg.
        andThen (onConsole (console_log (''   Error: '' @ templateText msg))) (\<lambda>_.
        andThen incFailed (\<lambda>_.
        andThen (readMessage error) (\<lambda>msg.
        andThen (pushError (testName @ '': '' @ templateText msg)) (\<lambda>_.
        ret False)))))))"

text \<open>
  \<open>TestBase.expectRevert\<close>, setup.js lines 78 to 91. An \<open>expectedMessage\<close> that
  was not passed is \<open>None\<close>. Line 83 reads \<open>error.message\<close> of whatever was caught
  and calls \<open>includes\<close> on it; the error it throws on again is the one it caught.
\<close>

definition expectRevert ::
  "('p, 'w, 'c) ethers \<Rightarrow> thrown + 'a \<Rightarrow> string option \<Rightarrow> (console, thrown, unit) xprog" where
  "expectRevert lib promise expectedMessage =
     tryCatch
       (andThen (await promise) (\<lambda>_.
        throw (Obj (Error ''Expected transaction to revert but it succeeded''))))
       (\<lambda>error.
        andThen (anyValue (readMessage error)) (\<lambda>msg.
        andThen (anyValue (member ''undefined'' msg ''includes'')) (\<lambda>text.
        if str_includes text ''Expected transaction to revert''
        then throw error
        else if truthy (ofString expectedMessage) \<and>
                \<not> str_includes (toLowerCase lib text)
                     (toLowerCase lib (the expectedMessage))
        then console_warn (''   '' @ sym_warning @ ''  Expected '' @ dquote
                           @ the expectedMessage @ dquote @ '' but got '' @ dquote
                           @ text @ dquote)
        else ret ())))"

text \<open>\<open>Array.prototype.find\<close> with a callback that may throw.\<close>

fun array_find :: "('a \<Rightarrow> ('s, bool) prog) \<Rightarrow> 'a list \<Rightarrow> ('s, 'a option) prog" where
  "array_find f [] = ret None"
| "array_find f (x # xs) =
     andThen (f x) (\<lambda>b. if b then ret (Some x) else array_find f xs)"

text \<open>
  \<open>TestBase.findEvent\<close>, setup.js lines 93 to 102. Reading \<open>name\<close> from the
  \<open>null\<close> that \<open>parseLog\<close> may return is a \<open>TypeError\<close>, inside the \<open>try\<close>.
\<close>

definition findEvent ::
  "('p, 'w, 'c) ethers \<Rightarrow> ('p, 'w, 'c) testBase \<Rightarrow> receipt \<Rightarrow> string \<Rightarrow>
     ('s, log option) prog" where
  "findEvent lib t receipt eventName =
     array_find
       (\<lambda>log.
          tryCatch
            (andThen (member ''undefined'' (contract1 t) ''interface'') (\<lambda>c.
             andThen (call (parseLog lib c log)) (\<lambda>parsed.
             andThen (member ''null'' parsed ''name'') (\<lambda>name.
             ret (name = eventName)))))
            (\<lambda>_. ret False))
       (logs receipt)"

text \<open>\<open>TestBase.assert\<close>, setup.js lines 104 to 108.\<close>

definition assert :: "'a jsval \<Rightarrow> string \<Rightarrow> ('s, unit) prog" where
  "assert condition msg = (if \<not> truthy condition then throw (Error msg) else ret ())"

text \<open>\<open>Array.prototype.forEach\<close>.\<close>

fun forEach :: "('a \<Rightarrow> ('s, unit) prog) \<Rightarrow> 'a list \<Rightarrow> ('s, unit) prog" where
  "forEach f [] = ret ()"
| "forEach f (x # xs) = andThen (f x) (\<lambda>_. forEach f xs)"

text \<open>\<open>TestBase.printResults\<close>, setup.js lines 110 to 118.\<close>

definition printResults :: "(('p, 'w, 'c) hstate, unit) prog" where
  "printResults s =
     (let r = results (this s); total = passed r + failed r in
      andThen (onConsole (console_log
        (newline @ sym_chart @ '' Results: '' @ showNat (passed r) @ ''/'' @ showNat total
         @ '' passed''))) (\<lambda>_.
      if failed r > 0
      then andThen (onConsole (console_log (newline @ sym_cross @ '' Failures:''))) (\<lambda>_.
           forEach (\<lambda>error. onConsole (console_log (''  '' @ sym_bullet @ '' '' @ error)))
             (errors r))
      else ret ())) s"

section \<open>The foundation runner of \<open>phase1.js\<close>\<close>

text \<open>
  \<open>FoundationTests.testContractConstants\<close> and \<open>testBasicAPIRegistration\<close>
  (phase1.js lines 30 and 77) hand one test function each to \<open>runTest\<close> and drop its
  result. What the two test functions do with the chain is a parameter here: a function
  from the object to a program over the console. What they throw is an error object:
  they fail through \<open>assert\<close>, through the chain client, or through reading a
  property of an absent value.
\<close>

type_synonym ('p, 'w, 'c) scenario = "('p, 'w, 'c) testBase \<Rightarrow> (console, unit) prog"

definition testContractConstants ::
  "('p, 'w, 'c) scenario \<Rightarrow> (('p, 'w, 'c) hstate, unit) prog" where
  "testContractConstants body s =
     andThen (runTest ''Contract Constants and Setup'' (anyValue (body (this s))))
       (\<lambda>_. ret ()) s"

definition testBasicAPIRegistration ::
  "('p, 'w, 'c) scenario \<Rightarrow> (('p, 'w, 'c) hstate, unit) prog" where
  "testBasicAPIRegistration body s =
     andThen (runTest ''Basic API Registration'' (anyValue (body (this s))))
       (\<lambda>_. ret ()) s"

text \<open>\<open>FoundationTests.runFoundationTests\<close>, phase1.js lines 10 to 28.\<close>

definition runFoundationTests ::
  "('p, 'w, 'c) scenario \<Rightarrow> ('p, 'w, 'c) scenario \<Rightarrow> (('p, 'w, 'c) hstate, unit) prog" where
  "runFoundationTests constantsBody registrationBody =
     andThen (onConsole (console_log (sym_crane @ ''  PHASE 1: FOUNDATION TESTS''))) (\<lambda>_.
     andThen (onConsole (console_log
       (''Testing the absolute basics that everything depends on'' @ newline))) (\<lambda>_.
     andThen (testContractConstants constantsBody) (\<lambda>_.
     andThen (testBasicAPIRegistration registrationBody) (\<lambda>_.
     andThen printResults (\<lambda>_.
     (\<lambda>s.
        (if failed (results (this s)) = 0
         then andThen (onConsole (console_log
                (newline @ sym_party @ '' Phase 1 complete! Foundation is solid.''))) (\<lambda>_.
              onConsole (console_log
                (sym_check @ '' Ready for Phase 2: API Registration edge cases'')))
         else onConsole (console_log
                (newline @ sym_warning @ ''  Fix Phase 1 issues before proceeding''))) s))))))"

text \<open>
  \<open>main\<close>, phase1.js lines 160 to 173. The result is the exit status of the process
  and what it printed: \<open>process.exit(1)\<close> ends it with status 1, and a \<open>main\<close> that
  runs to its end leaves the status at 0.
\<close>

definition phase1_try ::
  "('p, 'w, 'c) ethers \<Rightarrow> config \<Rightarrow> ('p, 'w, 'c) scenario \<Rightarrow> ('p, 'w, 'c) scenario \<Rightarrow>
     (('p, 'w, 'c) hstate, unit) prog" where
  "phase1_try lib cfg constantsBody registrationBody =
     andThen (newTestBase lib cfg) (\<lambda>_.
     runFoundationTests constantsBody registrationBody)"

definition phase1_main ::
  "('p, 'w, 'c) ethers \<Rightarrow> config \<Rightarrow> ('p, 'w, 'c) scenario \<Rightarrow> ('p, 'w, 'c) scenario \<Rightarrow>
     console \<Rightarrow> nat \<times> console" where
  "phase1_main lib cfg constantsBody registrationBody c =
     (case phase1_try lib cfg constantsBody registrationBody
             \<lparr>this = blankObject, console = c\<rparr> of
        (Inr u, s) \<Rightarrow> (0, console s)
      | (Inl error, s) \<Rightarrow>
          (1, console s @
              [Err (newline @ sym_boom @ '' Phase 1 failed: '' @ message error),
               Log (newline @ sym_wrench @ '' Troubleshooting:''),
               Log ''1. Check CONTRACT_ADDRESS is set in .env'',
               Log ''2. Ensure contract is deployed on Sepolia'',
               Log ''3. Verify wallet has sufficient ETH'',
               Log ''4. Check RPC_URL is working'']))"

section \<open>The registration edge cases of \<open>phase2.js\<close>\<close>

text \<open>
  The test function of \<open>RegistrationEdgeTests.testInsufficientStake\<close>, phase2.js
  lines 31 to 83. The \<open>throw\<close> of line 58 stands inside the \<open>try\<close> whose
  \<open>catch\<close> begins on line 60.
\<close>

definition insufficientStake_body ::
  "('p, 'w, 'c) ethers \<Rightarrow> ('p, 'w, 'c) testBase \<Rightarrow> (console, unit) prog" where
  "insufficientStake_body lib t =
     (let endpoint = ''https://api.lowstake.com/v1/data'';
          description = ''API with insufficient stake'';
          pricePerCall = parseEther lib ''0.001'';
          insufficientStake = parseEther lib ''0.05'' in
      andThen (console_log
        (''   '' @ sym_lock @ '' Testing stake requirement enforcement...'')) (\<lambda>_.
      andThen (console_log
        (''   '' @ sym_money @ '' Attempting registration with insufficient stake:'')) (\<lambda>_.
      andThen (console_log ''      Required: 0.1 ETH'') (\<lambda>_.
      andThen (console_log
        (''      Provided: '' @ formatEther lib insufficientStake @ '' ETH'')) (\<lambda>_.
      andThen
        (tryCatch
           (andThen (member ''undefined'' (contract1 t) ''registerAPI'') (\<lambda>c.
            andThen (await (registerAPI lib c endpoint description pricePerCall
                              insufficientStake)) (\<lambda>tx.
            andThen (console_log
              (''   '' @ sym_hourglass @ '' Transaction sent: '' @ hash tx)) (\<lambda>_.
            andThen (console_log
              (''   '' @ sym_hourglass @ '' Waiting to see if it reverts...'')) (\<lambda>_.
            andThen (await (wait tx)) (\<lambda>_.
            throw (Error ''Transaction should have reverted due to insufficient stake'')))))))
           (\<lambda>error.
            andThen (console_log
              (''   '' @ sym_check @ '' Transaction properly reverted: '' @ message error)) (\<lambda>_.
            let errorMsg = toLowerCase lib (message error) in
            if str_includes errorMsg ''insufficient stake'' \<or>
               str_includes errorMsg ''revert'' \<or>
               str_includes errorMsg ''require''
            then console_log (''   '' @ sym_check @ '' Correct error message received'')
            else console_log
              (''   '' @ sym_warning @ ''  Unexpected error message: '' @ message error))))
        (\<lambda>_.
      andThen (member ''undefined'' (contract1 t) ''nextApiId'') (\<lambda>c.
      andThen (await (nextApiId lib c)) (\<lambda>nextId.
      andThen (console_log
        (''   '' @ sym_chart @ '' Next API ID after failed registration: ''
         @ showNat nextId)) (\<lambda>_.
      andThen (assert (JBool (nextId = 2) :: unit jsval)
        ''Next API ID should not change after failed registration'') (\<lambda>_.
      console_log (''   '' @ sym_check @ '' Stake requirement properly enforced'')))))))))))"

definition testInsufficientStake ::
  "('p, 'w, 'c) ethers \<Rightarrow> (('p, 'w, 'c) hstate, unit) prog" where
  "testInsufficientStake lib s =
     andThen (runTest ''Registration Failure - Insufficient Stake''
                (anyValue (insufficientStake_body lib (this s)))) (\<lambda>_. ret ()) s"

text \<open>
  The test function of \<open>RegistrationEdgeTests.testInvalidParameters\<close>, phase2.js
  lines 87 to 155. The \<open>throw\<close> of line 104 and that of line 122 each stand inside
  the \<open>try\<close> whose \<open>catch\<close> follows them.
\<close>

definition invalidParameters_body ::
  "('p, 'w, 'c) ethers \<Rightarrow> ('p, 'w, 'c) testBase \<Rightarrow> (console, unit) prog" where
  "invalidParameters_body lib t =
     (let validStake = parseEther lib ''0.15'' in
      andThen (console_log (''   '' @ sym_lens @ '' Testing parameter validation...'')) (\<lambda>_.
      andThen (console_log (''   '' @ sym_memo @ '' Testing empty endpoint...'')) (\<lambda>_.
      andThen
        (tryCatch
           (andThen (member ''undefined'' (contract1 t) ''registerAPI'') (\<lambda>c.
            andThen (await (registerAPI lib c '''' ''Valid description''
                              (parseEther lib ''0.001'') validStake)) (\<lambda>tx1.
            andThen (console_log
              (''   '' @ sym_hourglass @ '' Empty endpoint tx sent: '' @ hash tx1)) (\<lambda>_.
            andThen (await (wait tx1)) (\<lambda>_.
            throw (Error ''Empty endpoint should have been rejected''))))))
           (\<lambda>error.
            console_log
              (''   '' @ sym_check @ '' Empty endpoint properly rejected: '' @ message error)))
        (\<lambda>_.
      andThen (console_log (''   '' @ sym_money @ '' Testing zero price...'')) (\<lambda>_.
      andThen
        (tryCatch
           (andThen (member ''undefined'' (contract1 t) ''registerAPI'') (\<lambda>c.
            andThen (await (registerAPI lib c ''https://api.zeroprice.com'' ''Zero price API''
                              0 validStake)) (\<lambda>tx2.
            andThen (console_log
              (''   '' @ sym_hourglass @ '' Zero price tx sent: '' @ hash tx2)) (\<lambda>_.
            andThen (await (wait tx2)) (\<lambda>_.
            throw (Error ''Zero price should have been rejected''))))))
           (\<lambda>error.
            console_log
              (''   '' @ sym_check @ '' Zero price properly rejected: '' @ message error)))
        (\<lambda>_.
      andThen (console_log
        (''   '' @ sym_check @ '' Testing valid registration still works...'')) (\<lambda>_.
      andThen (member ''undefined'' (contract1 t) ''registerAPI'') (\<lambda>c.
      andThen (await (registerAPI lib c ''https://api.valid.com/v1/test''
                        ''Valid test API for regression'' (parseEther lib ''0.002'')
                        validStake)) (\<lambda>validTx.
      andThen (await (wait validTx)) (\<lambda>validReceipt.
      andThen (console_log
        (''   '' @ sym_check @ '' Valid registration confirmed in block: ''
         @ showNat (blockNumber validReceipt))) (\<lambda>_.
      andThen (console_log
        (''   '' @ sym_fuel @ '' Gas used: ''
         @ toLocaleString lib (gasUsed validReceipt))) (\<lambda>_.
      andThen (findEvent lib t validReceipt ''APIRegistered'') (\<lambda>event.
      andThen (assert (ofObject event)
        ''APIRegistered event should be emitted for valid registration'') (\<lambda>_.
      andThen (member ''undefined'' event ''args'') (\<lambda>ev.
      andThen (member ''undefined'' (args ev) ''apiId'') (\<lambda>eventArgs.
      andThen (console_log
        (''   '' @ sym_id @ '' Valid API registered with ID: ''
         @ showNat (apiId eventArgs))) (\<lambda>_.
      andThen (await (getAPI lib c (apiId eventArgs))) (\<lambda>api.
      andThen (assert
        (JBool (endpoint api = ''https://api.valid.com/v1/test'') :: unit jsval)
        ''Endpoint should match'') (\<lambda>_.
      andThen (assert
        (JBool (pricePerCall api = parseEther lib ''0.002'') :: unit jsval)
        ''Price should match'') (\<lambda>_.
      andThen (assert (JBool (active api = True) :: unit jsval)
        ''API should be active'') (\<lambda>_.
      console_log
        (''   '' @ sym_check @ '' Parameter validation working correctly'')
      )))))))))))))))))))))"

definition testInvalidParameters ::
  "('p, 'w, 'c) ethers \<Rightarrow> (('p, 'w, 'c) hstate, unit) prog" where
  "testInvalidParameters lib s =
     andThen (runTest ''Registration Failure - Invalid Parameters''
                (anyValue (invalidParameters_body lib (this s)))) (\<lambda>_. ret ()) s"

text \<open>\<open>RegistrationEdgeTests.runRegistrationTests\<close>, phase2.js lines 10 to 28.\<close>

definition runRegistrationTests ::
  "('p, 'w, 'c) ethers \<Rightarrow> (('p, 'w, 'c) hstate, unit) prog" where
  "runRegistrationTests lib =
     andThen (onConsole (console_log
       (sym_shield @ ''  PHASE 2: REGISTRATION EDGE CASES''))) (\<lambda>_.
     andThen (onConsole (console_log
       (''Testing registration failures and boundary conditions'' @ newline))) (\<lambda>_.
     andThen (testInsufficientStake lib) (\<lambda>_.
     andThen (testInvalidParameters lib) (\<lambda>_.
     andThen printResults (\<lambda>_.
     (\<lambda>s.
        (if failed (results (this s)) = 0
         then andThen (onConsole (console_log
                (newline @ sym_party @ '' Phase 2 complete! Registration security verified.'')))
              (\<lambda>_.
              onConsole (console_log
                (sym_check @ '' Ready for Phase 3: Payment system tests'')))
         else onConsole (console_log
                (newline @ sym_warning @ ''  Fix Phase 2 issues before proceeding''))) s))))))"

text \<open>
  The method \<open>expectRevert\<close> that \<open>RegistrationEdgeTests\<close> puts in the place of
  the inherited one, phase2.js lines 159 to 178. Line 164 reads \<open>error.message\<close>
  of whatever was caught, and line 170 calls \<open>toLowerCase\<close> on
  \<open>expectedMessage\<close> whatever it is.
\<close>

definition RegistrationEdgeTests_expectRevert ::
  "('p, 'w, 'c) ethers \<Rightarrow> thrown + 'a \<Rightarrow> string option \<Rightarrow> (console, thrown, bool) xprog" where
  "RegistrationEdgeTests_expectRevert lib promise expectedMessage =
     tryCatch
       (andThen (await promise) (\<lambda>result.
        throw (Obj (Error ''Expected transaction to revert but it succeeded''))))
       (\<lambda>error.
        andThen (anyValue (readMessage error)) (\<lambda>msg.
        andThen (anyValue (member ''undefined'' msg ''includes'')) (\<lambda>text.
        if str_includes text ''Expected transaction to revert''
        then throw error
        else
          let errorMsg = toLowerCase lib text in
          andThen (anyValue (member ''undefined'' expectedMessage ''toLowerCase'')) (\<lambda>expected.
          let expectedMsg = toLowerCase lib expected in
          andThen
            (if \<not> str_includes errorMsg expectedMsg
             then console_warn (''   '' @ sym_warning @ ''  Expected '' @ dquote
                                @ expected @ dquote @ '' but got '' @ dquote
                                @ text @ dquote)
             else ret ())
            (\<lambda>_. ret True)))))"

section \<open>Sequences of harness operations\<close>







text \<open>
  The words of the specification of \<open>findEvent\<close>: the log entry decodes, against the
  ABI of the bound contract, to an event of the given name.
\<close>

definition decodesTo ::
  "('p, 'w, 'c) ethers \<Rightarrow> ('p, 'w, 'c) testBase \<Rightarrow> string \<Rightarrow> log \<Rightarrow> bool" where
  "decodesTo lib t eventName entry =
     (case contract1 t of
        None \<Rightarrow> False
      | Some c \<Rightarrow> parseLog lib c entry = Inr (Some eventName))"

text \<open>A program that returns from every state.\<close>

definition neverThrows :: "('s, 'e, 'a) xprog \<Rightarrow> bool" where
  "neverThrows m = (\<forall>s. \<exists>x s'. m s = (Inr x, s'))"

section \<open>A contract that rejects nothing\<close>

text \<open>
  A chain client for a registry that has nothing registered yet (its next identifier
  is 1) and accepts every registration, whatever the stake, the endpoint and the price:
  each \<open>registerAPI\<close> is sent and confirmed, and its receipt holds an
  \<open>APIRegistered\<close> log with the identifier given out. The four registrations of
  phase 2 get the identifiers 1 to 4, and \<open>nextApiId\<close>, read once after the first
  of them, is 2. \<open>parseLog\<close> decodes a log by its first topic, returns \<open>null\<close> for a
  topic it does not know and throws on a log without topics.
\<close>

definition registeredLog :: "nat \<Rightarrow> log" where
  "registeredLog n =
     \<lparr>logAddress = ''0x5FbDB2315678afecb367f032d93F642f64180aa3'',
      topics = [''APIRegistered''], logData = ''0x'', args = Some \<lparr>apiId = n\<rparr>\<rparr>"

definition strayLog :: log where
  "strayLog =
     \<lparr>logAddress = ''0x0000000000000000000000000000000000000000'',
      topics = [], logData = ''0x'', args = None\<rparr>"

definition transferLog :: log where
  "transferLog =
     \<lparr>logAddress = ''0x0000000000000000000000000000000000000001'',
      topics = [''Transfer''], logData = ''0x'', args = None\<rparr>"

text \<open>
  The folding of the letters A to Z, which is what \<open>toLowerCase\<close> does to a text
  in ASCII; the texts of the examples are.
\<close>

definition asciiLowerChar :: "char \<Rightarrow> char" where
  "asciiLowerChar c =
     (if 65 \<le> (of_char c :: nat) \<and> (of_char c :: nat) \<le> 90
      then char_of ((of_char c :: nat) + 32) else c)"

definition asciiLowerCase :: "string \<Rightarrow> string" where
  "asciiLowerCase s = map asciiLowerChar s"

definition acceptingClient :: "(unit, unit, unit) ethers" where
  "acceptingClient =
     \<lparr>JsonRpcProvider = (\<lambda>url. Inr ()),
      Wallet = (\<lambda>key p. Inr ()),
      createRandom = Inr ''0x01'',
      Contract = (\<lambda>target abi w. Inr ()),
      connect = (\<lambda>c w. Inr ()),
      address = (\<lambda>w. ''0xf39Fd6e51aad88F6F4ce6aB8827279cffFb92266''),
      parseLog = (\<lambda>c entry.
        case topics entry of
          [] \<Rightarrow> Inl (Error ''no matching event'')
        | topic # _ \<Rightarrow>
            if topic = ''APIRegistered'' \<or> topic = ''APIPayment'' then Inr (Some topic)
            else Inr None),
      registerAPI = (\<lambda>c endpoint description price value.
        let n = (if endpoint = ''https://api.lowstake.com/v1/data'' then 1
                 else if endpoint = [] then 2
                 else if endpoint = ''https://api.zeroprice.com'' then 3
                 else 4) in
        Inr \<lparr>hash = ''0xabc'',
             wait = Inr \<lparr>blockNumber = n, gasUsed = 21000,
                          logs = [strayLog, transferLog, registeredLog n]\<rparr>\<rparr>),
      nextApiId = (\<lambda>c. Inr 2),
      getAPI = (\<lambda>c n.
        Inr \<lparr>api_id = n, endpoint = ''https://api.valid.com/v1/test'',
             description = ''Valid test API for regression'',
             pricePerCall = 2000000000000000, stake = 150000000000000000,
             api_provider = ''0xf39Fd6e51aad88F6F4ce6aB8827279cffFb92266'',
             active = True, totalCalls = 0, successfulCalls = 0, createdAt = 1\<rparr>),
      parseEther = (\<lambda>text.
        if text = ''0.001'' then 1000000000000000
        else if text = ''0.002'' then 2000000000000000
        else if text = ''0.05'' then 50000000000000000
        else if text = ''0.15'' then 150000000000000000
        else 0),
      formatEther = (\<lambda>wei. if wei = 50000000000000000 then ''0.05'' else ''0.0''),
      toLocaleString = (\<lambda>n. if n = 21000 then ''21,000'' else ''0''),
      toLowerCase = asciiLowerCase\<rparr>"

definition exampleConfig :: config where
  "exampleConfig =
     loadConfig
       [''CONTRACT_ADDRESS'' \<mapsto> ''0x5FbDB2315678afecb367f032d93F642f64180aa3'',
        ''PRIVATE_KEY'' \<mapsto> ''0x01'']"

definition exampleHarness :: "(unit, unit, unit) hstate" where
  "exampleHarness =
     \<lparr>this = \<lparr>results = \<lparr>passed = 0, failed = 0, errors = []\<rparr>,
               provider = Some (), wallet1 = Some (), contract1 = Some (),
               wallet2 = Some (), contract2 = Some ()\<rparr>,
      console = []\<rparr>"

section \<open>Properties of the harness\<close>

lemmas prog_defs =
  ret_def throw_def andThen_def tryCatch_def await_def call_def onConsole_def assign_def
  console_log_def console_warn_def console_error_def anyValue_def

lemmas results_defs = incPassed_def incFailed_def pushError_def

subsection \<open>Evaluation of the string operations on the texts that occur\<close>

lemma sentinel_includes:
  "str_includes ''Expected transaction to revert but it succeeded''
     ''Expected transaction to revert''"
  by (simp add: str_includes_def sublist_code)

lemma not_sentinel:
  "\<not> str_includes ''execution reverted: Insufficient stake'' ''Expected transaction to revert''"
  by (simp add: str_includes_def sublist_code)

lemma lower_revert_reason:
  "asciiLowerCase ''execution reverted: Insufficient stake'' =
     ''execution reverted: insufficient stake''"
  by code_simp

lemma lower_only_owner: "asciiLowerCase ''Only owner'' = ''only owner''"
  by code_simp

lemma lower_should_have_reverted:
  "asciiLowerCase ''Transaction should have reverted due to insufficient stake'' =
     ''transaction should have reverted due to insufficient stake''"
  by code_simp

lemma includes_insufficient_stake:
  "str_includes ''transaction should have reverted due to insufficient stake''
     ''insufficient stake''"
  by (simp add: str_includes_def sublist_code)

lemma showNat_0: "showNat 0 = ''0''"
  by code_simp

lemma showNat_2: "showNat 2 = ''2''"
  by code_simp

lemma showNat_4: "showNat 4 = ''4''"
  by code_simp

subsection \<open>\<open>runTest\<close>\<close>

text \<open>
  C1, as stated, fails: \<open>runTest\<close> does not isolate every failure of the test
  function. The \<open>catch\<close> block reads \<open>error.message\<close>; when the test function
  throws \<open>null\<close> (or \<open>undefined\<close>) that read is itself a \<open>TypeError\<close>, which
  leaves \<open>runTest\<close> after the line that reports the failure was printed, with
  \<open>failed\<close> not incremented, nothing appended to \<open>errors\<close> and no \<open>false\<close>
  returned.
\<close>

theorem runTest_null_counterexample:
  "runTest ''t'' (throw (Value JNull))
       \<lparr>this = blankObject :: (unit, unit, unit) testBase, console = []\<rparr> =
     (Inl (TypeError (''Cannot read properties of null (reading ''
                      @ [CHR 0x27] @ ''message'' @ [CHR 0x27] @ '')'')),
      \<lparr>this = blankObject,
       console = [Log (newline @ sym_test @ '' t...''), Log (sym_cross @ '' FAILED: t'')]\<rparr>)"
  by (simp add: runTest_def prog_defs results_defs member_def)

text \<open>
  C1, amended. The test function runs on the console as it is after the line that
  announces the test. If it completes, \<open>passed\<close> is incremented and \<open>runTest\<close>
  returns \<open>true\<close>. If it throws an error object \<open>e\<close>, \<open>failed\<close> is
  incremented, the string made of the name, a colon, a space and the message of \<open>e\<close>
  is appended to \<open>errors\<close>, and \<open>runTest\<close> returns \<open>false\<close>; nothing is
  thrown on. If it throws a value that has no property \<open>message\<close> and is neither
  \<open>undefined\<close> nor \<open>null\<close> (a boolean, a number, a string, an object without
  one), the same happens with the text \<open>undefined\<close> in the place of the message.
\<close>

theorem runTest_isolates_failure:
  "(\<forall>u c'. testFunction (console s @ [Log (newline @ sym_test @ '' '' @ testName @ ''...'')])
        = (Inr u, c') \<longrightarrow>
      runTest testName testFunction s =
        (Inr True,
         s\<lparr>console := c' @ [Log (sym_check @ '' PASSED: '' @ testName)],
           this := (this s)\<lparr>results := (results (this s))
             \<lparr>passed := passed (results (this s)) + 1\<rparr>\<rparr>\<rparr>)) \<and>
   (\<forall>e c'. testFunction (console s @ [Log (newline @ sym_test @ '' '' @ testName @ ''...'')])
        = (Inl (Obj e), c') \<longrightarrow>
      runTest testName testFunction s =
        (Inr False,
         s\<lparr>console := c' @ [Log (sym_cross @ '' FAILED: '' @ testName),
                             Log (''   Error: '' @ message e)],
           this := (this s)\<lparr>results := (results (this s))
             \<lparr>failed := failed (results (this s)) + 1,
              errors := errors (results (this s)) @ [testName @ '': '' @ message e]\<rparr>\<rparr>\<rparr>)) \<and>
   (\<forall>v c'. testFunction (console s @ [Log (newline @ sym_test @ '' '' @ testName @ ''...'')])
        = (Inl (Value v), c') \<and> v \<noteq> JUndefined \<and> v \<noteq> JNull \<longrightarrow>
      runTest testName testFunction s =
        (Inr False,
         s\<lparr>console := c' @ [Log (sym_cross @ '' FAILED: '' @ testName),
                             Log ''   Error: undefined''],
           this := (this s)\<lparr>results := (results (this s))
             \<lparr>failed := failed (results (this s)) + 1,
              errors := errors (results (this s)) @ [testName @ '': undefined'']\<rparr>\<rparr>\<rparr>))"
proof (intro conjI allI impI)
  fix u c'
  assume "testFunction (console s @ [Log (newline @ sym_test @ '' '' @ testName @ ''...'')])
      = (Inr u, c')"
  then show "runTest testName testFunction s =
        (Inr True,
         s\<lparr>console := c' @ [Log (sym_check @ '' PASSED: '' @ testName)],
           this := (this s)\<lparr>results := (results (this s))
             \<lparr>passed := passed (results (this s)) + 1\<rparr>\<rparr>\<rparr>)"
    by (simp add: runTest_def prog_defs results_defs)
next
  fix e c'
  assume "testFunction (console s @ [Log (newline @ sym_test @ '' '' @ testName @ ''...'')])
      = (Inl (Obj e), c')"
  then show "runTest testName testFunction s =
        (Inr False,
         s\<lparr>console := c' @ [Log (sym_cross @ '' FAILED: '' @ testName),
                             Log (''   Error: '' @ message e)],
           this := (this s)\<lparr>results := (results (this s))
             \<lparr>failed := failed (results (this s)) + 1,
              errors := errors (results (this s)) @ [testName @ '': '' @ message e]\<rparr>\<rparr>\<rparr>)"
    by (simp add: runTest_def prog_defs results_defs)
next
  fix v :: "unit jsval" and c'
  assume "testFunction (console s @ [Log (newline @ sym_test @ '' '' @ testName @ ''...'')])
      = (Inl (Value v), c') \<and> v \<noteq> JUndefined \<and> v \<noteq> JNull"
  then show "runTest testName testFunction s =
        (Inr False,
         s\<lparr>console := c' @ [Log (sym_cross @ '' FAILED: '' @ testName),
                             Log ''   Error: undefined''],
           this := (this s)\<lparr>results := (results (this s))
             \<lparr>failed := failed (results (this s)) + 1,
              errors := errors (results (this s)) @ [testName @ '': undefined'']\<rparr>\<rparr>\<rparr>)"
    by (cases v) (simp_all add: runTest_def prog_defs results_defs)
qed

text \<open>
  A test function that returns, one that throws an \<open>Error\<close> and one that throws a
  string, on a new object.
\<close>

theorem runTest_isolates_failure_witness:
  "runTest ''t'' (ret ()) \<lparr>this = blankObject :: (unit, unit, unit) testBase, console = []\<rparr> =
     (Inr True,
      \<lparr>this = blankObject\<lparr>results := \<lparr>passed = 1, failed = 0, errors = []\<rparr>\<rparr>,
       console = [Log (newline @ sym_test @ '' t...''), Log (sym_check @ '' PASSED: t'')]\<rparr>) \<and>
   runTest ''t'' (throw (Obj (Error ''boom'')))
       \<lparr>this = blankObject :: (unit, unit, unit) testBase, console = []\<rparr> =
     (Inr False,
      \<lparr>this = blankObject\<lparr>results := \<lparr>passed = 0, failed = 1, errors = [''t: boom'']\<rparr>\<rparr>,
       console = [Log (newline @ sym_test @ '' t...''), Log (sym_cross @ '' FAILED: t''),
                  Log ''   Error: boom'']\<rparr>) \<and>
   runTest ''t'' (throw (Value (JStr ''boom'')))
       \<lparr>this = blankObject :: (unit, unit, unit) testBase, console = []\<rparr> =
     (Inr False,
      \<lparr>this = blankObject\<lparr>results := \<lparr>passed = 0, failed = 1, errors = [''t: undefined'']\<rparr>\<rparr>,
       console = [Log (newline @ sym_test @ '' t...''), Log (sym_cross @ '' FAILED: t''),
                  Log ''   Error: undefined'']\<rparr>)"
  using
    runTest_isolates_failure [of "ret ()"
      "\<lparr>this = blankObject :: (unit, unit, unit) testBase, console = []\<rparr>" "''t''"]
    runTest_isolates_failure [of "throw (Obj (Error ''boom''))"
      "\<lparr>this = blankObject :: (unit, unit, unit) testBase, console = []\<rparr>" "''t''"]
    runTest_isolates_failure [of "throw (Value (JStr ''boom''))"
      "\<lparr>this = blankObject :: (unit, unit, unit) testBase, console = []\<rparr>" "''t''"]
  by (simp add: ret_def throw_def blankObject_def)

subsection \<open>The bookkeeping of results\<close>


lemma findEvent_callback:
  "tryCatch
     (andThen (member ''undefined'' (contract1 t) ''interface'') (\<lambda>c.
      andThen (call (parseLog lib c entry)) (\<lambda>parsed.
      andThen (member ''null'' parsed ''name'') (\<lambda>name.
      ret (name = eventName)))))
     (\<lambda>_. ret False) s = (Inr (decodesTo lib t eventName entry), s)"
  by (auto simp: prog_defs member_def decodesTo_def split: option.splits sum.splits)

lemma array_find_total:
  "(\<And>x s. f x s = (Inr (P x), s)) \<Longrightarrow> array_find f xs s = (Inr (List.find P xs), s)"
  by (induction xs) (simp_all add: ret_def andThen_def)

lemma findEvent_eq:
  "findEvent lib t receipt eventName s =
     (Inr (List.find (decodesTo lib t eventName) (logs receipt)), s)"
  unfolding findEvent_def
  by (rule array_find_total) (rule findEvent_callback)

lemma forEach_log:
  "forEach (\<lambda>x. onConsole (console_log (g x))) xs s =
     (Inr (), s\<lparr>console := console s @ map (\<lambda>x. Log (g x)) xs\<rparr>)"
  by (induction xs arbitrary: s) (simp_all add: prog_defs)


lemma printResults_returns: "fst (printResults s) = Inr ()"
  by (simp add: printResults_def Let_def forEach_log prog_defs)










subsection \<open>\<open>expectRevert\<close>\<close>

text \<open>
  C3, as stated, fails: \<open>expectRevert\<close> does not fail only when the promise resolves.
  A promise that rejects with an error whose message contains the text
  \<open>Expected transaction to revert\<close> makes it throw that error.
\<close>

theorem expectRevert_iff_resolves_counterexample:
  "\<not> (\<forall>(promise :: thrown + unit) expectedMessage c.
        (\<exists>e. fst (expectRevert acceptingClient promise expectedMessage c) = Inl e) \<longleftrightarrow>
        (\<exists>v. promise = Inr v))"
proof
  assume a: "\<forall>(promise :: thrown + unit) expectedMessage c.
        (\<exists>e. fst (expectRevert acceptingClient promise expectedMessage c) = Inl e) \<longleftrightarrow>
        (\<exists>v. promise = Inr v)"
  have "fst (expectRevert acceptingClient
          (Inl (Obj (Error ''Expected transaction to revert but it succeeded'')) :: thrown + unit)
          None []) =
        Inl (Obj (Error ''Expected transaction to revert but it succeeded''))"
    by (simp add: expectRevert_def prog_defs member_def sentinel_includes)
  with a show False by (metis sum.distinct(1))
qed

text \<open>
  Nor does it complete on every rejection that lacks that text: line 83 reads
  \<open>error.message\<close> and calls \<open>includes\<close> on it, so a promise that rejects with
  \<open>null\<close>, or with a string, makes \<open>expectRevert\<close> throw a \<open>TypeError\<close>.
\<close>

lemma expectRevert_rejection_without_message:
  "expectRevert acceptingClient (Inl (Value JNull) :: thrown + unit) None [] =
     (Inl (Obj (TypeError (''Cannot read properties of null (reading ''
                           @ [CHR 0x27] @ ''message'' @ [CHR 0x27] @ '')''))), []) \<and>
   expectRevert acceptingClient (Inl (Value (JStr ''reverted'')) :: thrown + unit) None [] =
     (Inl (Obj (TypeError (''Cannot read properties of undefined (reading ''
                           @ [CHR 0x27] @ ''includes'' @ [CHR 0x27] @ '')''))), [])"
  by (simp add: expectRevert_def prog_defs member_def)

text \<open>
  C3, amended. When the promise resolves, \<open>expectRevert\<close> throws an error with the
  message \<open>Expected transaction to revert but it succeeded\<close>. When the promise rejects
  with an error object whose message contains \<open>Expected transaction to revert\<close>, it
  throws that error. When the promise rejects with any other error object it returns,
  whatever \<open>expectedMessage\<close> is; it prints one warning, and nothing else, exactly
  when \<open>expectedMessage\<close> is a non-empty string and the message of the error, put in
  lower case by \<open>toLowerCase\<close>, does not contain \<open>expectedMessage\<close> put in lower
  case. This holds whatever function \<open>toLowerCase\<close> is.
\<close>

theorem expectRevert_outcome:
  "expectRevert lib (Inr v) expectedMessage c =
     (Inl (Obj (Error ''Expected transaction to revert but it succeeded'')), c) \<and>
   (str_includes (message e) ''Expected transaction to revert'' \<longrightarrow>
      expectRevert lib (Inl (Obj e) :: thrown + 'a) expectedMessage c = (Inl (Obj e), c)) \<and>
   (\<not> str_includes (message e) ''Expected transaction to revert'' \<longrightarrow>
      expectRevert lib (Inl (Obj e) :: thrown + 'a) expectedMessage c =
        (Inr (),
         case expectedMessage of
           None \<Rightarrow> c
         | Some expected \<Rightarrow>
             if expected \<noteq> [] \<and>
                \<not> str_includes (toLowerCase lib (message e)) (toLowerCase lib expected)
             then c @ [Warn (''   '' @ sym_warning @ ''  Expected '' @ dquote @ expected
                             @ dquote @ '' but got '' @ dquote @ message e @ dquote)]
             else c))"
  by (cases expectedMessage)
     (simp_all add: expectRevert_def prog_defs member_def sentinel_includes)

text \<open>
  A promise that resolves, one that rejects with the text of the guard, and one that
  rejects with a revert reason that does not contain the expected text.
\<close>

theorem expectRevert_outcome_witness:
  "expectRevert acceptingClient (Inr () :: thrown + unit) (Some ''Only owner'') [] =
     (Inl (Obj (Error ''Expected transaction to revert but it succeeded'')), []) \<and>
   expectRevert acceptingClient
     (Inl (Obj (Error ''Expected transaction to revert but it succeeded'')) :: thrown + unit)
     (Some ''Only owner'') [] =
     (Inl (Obj (Error ''Expected transaction to revert but it succeeded'')), []) \<and>
   expectRevert acceptingClient
     (Inl (Obj (Error ''execution reverted: Insufficient stake'')) :: thrown + unit)
     (Some ''Only owner'') [] =
     (Inr (),
      [Warn (''   '' @ sym_warning @ ''  Expected '' @ dquote @ ''Only owner'' @ dquote
             @ '' but got '' @ dquote @ ''execution reverted: Insufficient stake'' @ dquote)])"
proof -
  have lower: "toLowerCase acceptingClient = asciiLowerCase"
    by (simp add: acceptingClient_def)
  from
    expectRevert_outcome [where ?'a = unit, of acceptingClient "()" "Some ''Only owner''" "[]"
      "Error ''Expected transaction to revert but it succeeded''"]
    expectRevert_outcome [where ?'a = unit, of acceptingClient "()" "Some ''Only owner''" "[]"
      "Error ''execution reverted: Insufficient stake''"]
  show ?thesis
    by (simp add: not_sentinel sentinel_includes lower lower_revert_reason lower_only_owner
        str_includes_def sublist_code)
qed

subsection \<open>\<open>findEvent\<close>\<close>

text \<open>
  C4. \<open>findEvent\<close> always returns, and leaves the state as it was. It returns the
  absent value exactly when no entry of \<open>receipt.logs\<close> decodes to \<open>eventName\<close>;
  an entry it returns decodes to \<open>eventName\<close>, and no entry before it in the list
  does. An entry on which \<open>parseLog\<close> throws does not decode to \<open>eventName\<close>: it
  is passed over.
\<close>

theorem findEvent_first_match:
  "\<exists>r. findEvent lib t receipt eventName s = (Inr r, s) \<and>
     (r = None \<longleftrightarrow> (\<forall>entry \<in> set (logs receipt). \<not> decodesTo lib t eventName entry)) \<and>
     (\<forall>entry. r = Some entry \<longrightarrow>
        (\<exists>i < length (logs receipt).
           logs receipt ! i = entry \<and> decodesTo lib t eventName entry \<and>
           (\<forall>j < i. \<not> decodesTo lib t eventName (logs receipt ! j)))) \<and>
     (\<forall>entry c e. contract1 t = Some c \<and> parseLog lib c entry = Inl e \<longrightarrow>
        \<not> decodesTo lib t eventName entry)"
proof -
  let ?r = "List.find (decodesTo lib t eventName) (logs receipt)"
  have ret: "findEvent lib t receipt eventName s = (Inr ?r, s)"
    by (rule findEvent_eq)
  have none: "?r = None \<longleftrightarrow>
      (\<forall>entry \<in> set (logs receipt). \<not> decodesTo lib t eventName entry)"
    by (auto simp: find_None_iff)
  have first: "\<forall>entry. ?r = Some entry \<longrightarrow>
        (\<exists>i < length (logs receipt).
           logs receipt ! i = entry \<and> decodesTo lib t eventName entry \<and>
           (\<forall>j < i. \<not> decodesTo lib t eventName (logs receipt ! j)))"
    by (auto simp: find_Some_iff)
  have skipped: "\<forall>entry c e. contract1 t = Some c \<and> parseLog lib c entry = Inl e \<longrightarrow>
        \<not> decodesTo lib t eventName entry"
    by (simp add: decodesTo_def)
  from ret none first skipped show ?thesis
    by (intro exI [of _ ?r] conjI)
qed

text \<open>
  A receipt with four logs: \<open>parseLog\<close> throws on the first, returns \<open>null\<close> on
  the second, and decodes the third and the fourth to \<open>APIRegistered\<close>. The third is
  found, at index 2; no log decodes to \<open>APIPayment\<close>.
\<close>

theorem findEvent_first_match_witness:
  "findEvent acceptingClient (this exampleHarness)
     \<lparr>blockNumber = 1, gasUsed = 21000,
      logs = [strayLog, transferLog, registeredLog 7, registeredLog 8]\<rparr>
     ''APIRegistered'' () = (Inr (Some (registeredLog 7)), ()) \<and>
   (\<exists>i < 4. [strayLog, transferLog, registeredLog 7, registeredLog 8] ! i = registeredLog 7 \<and>
      (\<forall>j < i. \<not> decodesTo acceptingClient (this exampleHarness) ''APIRegistered''
                   ([strayLog, transferLog, registeredLog 7, registeredLog 8] ! j))) \<and>
   findEvent acceptingClient (this exampleHarness)
     \<lparr>blockNumber = 1, gasUsed = 21000,
      logs = [strayLog, transferLog, registeredLog 7, registeredLog 8]\<rparr>
     ''APIPayment'' () = (Inr None, ())"
proof -
  let ?t = "this exampleHarness"
  let ?logs = "[strayLog, transferLog, registeredLog 7, registeredLog 8]"
  let ?receipt = "\<lparr>blockNumber = 1, gasUsed = 21000, logs = ?logs\<rparr>"
  from findEvent_first_match [of acceptingClient ?t ?receipt "''APIRegistered''" "()"]
  obtain r where
    ret: "findEvent acceptingClient ?t ?receipt ''APIRegistered'' () = (Inr r, ())" and
    first: "\<forall>entry. r = Some entry \<longrightarrow>
        (\<exists>i < length (logs ?receipt).
           logs ?receipt ! i = entry \<and> decodesTo acceptingClient ?t ''APIRegistered'' entry \<and>
           (\<forall>j < i. \<not> decodesTo acceptingClient ?t ''APIRegistered'' (logs ?receipt ! j)))"
    by blast
  have found: "findEvent acceptingClient ?t ?receipt ''APIRegistered'' ()
      = (Inr (Some (registeredLog 7)), ())"
    by (simp add: findEvent_eq decodesTo_def acceptingClient_def exampleHarness_def
        strayLog_def transferLog_def registeredLog_def)
  with ret have "r = Some (registeredLog 7)"
    by simp
  with first have "\<exists>i < length (logs ?receipt).
      logs ?receipt ! i = registeredLog 7 \<and>
      decodesTo acceptingClient ?t ''APIRegistered'' (registeredLog 7) \<and>
      (\<forall>j < i. \<not> decodesTo acceptingClient ?t ''APIRegistered'' (logs ?receipt ! j))"
    by blast
  then obtain i where
    i: "i < length (logs ?receipt)" "logs ?receipt ! i = registeredLog 7"
       "\<forall>j < i. \<not> decodesTo acceptingClient ?t ''APIRegistered'' (logs ?receipt ! j)"
    by blast
  have len: "length (logs ?receipt) = 4"
    by simp
  from i(1) have "i < 4"
    unfolding len .
  with i(2,3) have index: "\<exists>i < 4. ?logs ! i = registeredLog 7 \<and>
      (\<forall>j < i. \<not> decodesTo acceptingClient ?t ''APIRegistered'' (?logs ! j))"
    by (intro exI [of _ i]) simp
  have absent: "findEvent acceptingClient ?t ?receipt ''APIPayment'' () = (Inr None, ())"
    by (simp add: findEvent_eq decodesTo_def acceptingClient_def exampleHarness_def
        strayLog_def transferLog_def registeredLog_def)
  from found index absent show ?thesis
    by blast
qed

subsection \<open>\<open>assert\<close>\<close>

text \<open>
  C6. For a boolean condition, \<open>assert\<close> returns when the condition is \<open>true\<close> and
  throws an \<open>Error\<close> whose message is the given message when it is \<open>false\<close>. In
  both cases the state, whatever it holds, is left as it was.
\<close>

theorem assert_boolean:
  "assert (JBool True) msg s = (Inr (), s) \<and>
   assert (JBool False) msg s = (Inl (Error msg), s)"
  by (simp add: assert_def ret_def throw_def)

text \<open>
  C9. \<open>assert\<close> returns on every truthy value and throws an \<open>Error\<close> with the
  given message on every falsy one. \<open>true\<close> and any object are truthy; \<open>false\<close>,
  \<open>undefined\<close>, \<open>null\<close>, \<open>0\<close> and the empty string are falsy. So
  \<open>assert(findEvent(receipt, name), msg)\<close> returns when some log of the receipt
  decodes to the name and throws \<open>Error(msg)\<close> when none does.
\<close>

theorem assert_truthiness:
  "assert v msg s = (if truthy v then (Inr (), s) else (Inl (Error msg), s)) \<and>
   truthy (JBool True :: 'a jsval) \<and> truthy (JObj x :: 'a jsval) \<and>
   \<not> truthy (JBool False :: 'a jsval) \<and> \<not> truthy (JUndefined :: 'a jsval) \<and>
   \<not> truthy (JNull :: 'a jsval) \<and> \<not> truthy (JNum 0 :: 'a jsval) \<and>
   \<not> truthy (JStr [] :: 'a jsval) \<and>
   andThen (findEvent lib t receipt eventName) (\<lambda>event. assert (ofObject event) msg) s =
     (case List.find (decodesTo lib t eventName) (logs receipt) of
        Some entry \<Rightarrow> (Inr (), s)
      | None \<Rightarrow> (Inl (Error msg), s))"
  by (simp add: assert_def prog_defs findEvent_eq split: option.splits)

text \<open>
  On the receipt of a registration the event is found and the assertion passes; on a
  receipt without a matching log it throws the message of the caller.
\<close>

theorem assert_truthiness_witness:
  "andThen (findEvent acceptingClient (this exampleHarness)
              \<lparr>blockNumber = 1, gasUsed = 21000, logs = [strayLog, registeredLog 1]\<rparr>
              ''APIRegistered'')
     (\<lambda>event. assert (ofObject event) ''APIRegistered event should be emitted'') () =
     (Inr (), ()) \<and>
   andThen (findEvent acceptingClient (this exampleHarness)
              \<lparr>blockNumber = 1, gasUsed = 21000, logs = [strayLog, transferLog]\<rparr>
              ''APIRegistered'')
     (\<lambda>event. assert (ofObject event) ''APIRegistered event should be emitted'') () =
     (Inl (Error ''APIRegistered event should be emitted''), ())"
  using
    assert_truthiness [of "JUndefined :: log jsval" "''APIRegistered event should be emitted''"
      "()" undefined acceptingClient "this exampleHarness"
      "\<lparr>blockNumber = 1, gasUsed = 21000, logs = [strayLog, registeredLog 1]\<rparr>"
      "''APIRegistered''"]
    assert_truthiness [of "JUndefined :: log jsval" "''APIRegistered event should be emitted''"
      "()" undefined acceptingClient "this exampleHarness"
      "\<lparr>blockNumber = 1, gasUsed = 21000, logs = [strayLog, transferLog]\<rparr>"
      "''APIRegistered''"]
  by (simp add: decodesTo_def acceptingClient_def exampleHarness_def
      strayLog_def transferLog_def registeredLog_def)

subsection \<open>Construction\<close>

text \<open>
  C7. When the contract address is absent from the configuration (the variable is not
  set, or set to the empty text), the constructor throws the error that asks for
  \<open>CONTRACT_ADDRESS\<close>, prints nothing, and the object holds no chain connection, no
  wallet and no contract binding.
\<close>

theorem setupWallets_fails_fast:
  "CONTRACT_ADDRESS cfg = None \<or> CONTRACT_ADDRESS cfg = Some [] \<Longrightarrow>
   newTestBase lib cfg \<lparr>this = blankObject, console = c\<rparr> =
     (Inl (Error (sym_cross @ '' Please set CONTRACT_ADDRESS in .env file'')),
      \<lparr>this = \<lparr>results = \<lparr>passed = 0, failed = 0, errors = []\<rparr>,
               provider = None, wallet1 = None, contract1 = None,
               wallet2 = None, contract2 = None\<rparr>,
       console = c\<rparr>)"
  by (auto simp: newTestBase_def setupWallets_def prog_defs blankObject_def)

text \<open>An environment with no variable set.\<close>

theorem setupWallets_fails_fast_witness:
  "newTestBase acceptingClient (loadConfig Map.empty) \<lparr>this = blankObject, console = []\<rparr> =
     (Inl (Error (sym_cross @ '' Please set CONTRACT_ADDRESS in .env file'')),
      \<lparr>this = \<lparr>results = \<lparr>passed = 0, failed = 0, errors = []\<rparr>,
               provider = None, wallet1 = None, contract1 = None,
               wallet2 = None, contract2 = None\<rparr>,
       console = []\<rparr>)"
  using setupWallets_fails_fast [of "loadConfig Map.empty" acceptingClient "[]"]
  by (simp add: loadConfig_def)

subsection \<open>The \<open>expectRevert\<close> of phase 2\<close>

text \<open>
  C10, as stated, fails: with \<open>expectedMessage\<close> absent, the \<open>expectRevert\<close> of
  \<open>RegistrationEdgeTests\<close> does not raise a \<open>TypeError\<close> on every rejection. A
  rejection whose message contains \<open>Expected transaction to revert\<close> is thrown on as
  it is, before \<open>expectedMessage\<close> is touched.
\<close>

theorem override_type_error_counterexample:
  "\<not> (\<forall>(e :: jserror) c. \<exists>e'.
        fst (RegistrationEdgeTests_expectRevert acceptingClient
               (Inl (Obj e) :: thrown + unit) None c) = Inl (Obj e') \<and>
        isTypeError e')"
proof
  assume a: "\<forall>(e :: jserror) c. \<exists>e'.
        fst (RegistrationEdgeTests_expectRevert acceptingClient
               (Inl (Obj e) :: thrown + unit) None c) = Inl (Obj e') \<and>
        isTypeError e'"
  have "fst (RegistrationEdgeTests_expectRevert acceptingClient
          (Inl (Obj (Error ''Expected transaction to revert but it succeeded'')) :: thrown + unit)
          None []) =
        Inl (Obj (Error ''Expected transaction to revert but it succeeded''))"
    by (simp add: RegistrationEdgeTests_expectRevert_def prog_defs member_def sentinel_includes)
  with a show False
    by (metis isTypeError.simps(2) sum.inject(1) thrown.inject(1))
qed

text \<open>
  C10, amended. For every promise that rejects with an error whose message does not
  contain \<open>Expected transaction to revert\<close>, the \<open>expectRevert\<close> of
  \<open>RegistrationEdgeTests\<close> called without \<open>expectedMessage\<close> throws the
  \<open>TypeError\<close> of calling \<open>toLowerCase\<close> on \<open>undefined\<close>, while the one of
  \<open>TestBase\<close> returns and prints nothing. A rejection whose message contains that text
  is thrown on by both.
\<close>

theorem override_needs_expectedMessage:
  "(\<not> str_includes (message e) ''Expected transaction to revert'' \<longrightarrow>
      RegistrationEdgeTests_expectRevert lib (Inl (Obj e) :: thrown + 'a) None c =
        (Inl (Obj (TypeError (''Cannot read properties of undefined (reading ''
                              @ [CHR 0x27] @ ''toLowerCase'' @ [CHR 0x27] @ '')''))), c) \<and>
      expectRevert lib (Inl (Obj e) :: thrown + 'a) None c = (Inr (), c)) \<and>
   (str_includes (message e) ''Expected transaction to revert'' \<longrightarrow>
      RegistrationEdgeTests_expectRevert lib (Inl (Obj e) :: thrown + 'a) None c =
        (Inl (Obj e), c) \<and>
      expectRevert lib (Inl (Obj e) :: thrown + 'a) None c = (Inl (Obj e), c))"
  by (simp add: RegistrationEdgeTests_expectRevert_def expectRevert_def prog_defs member_def
      Let_def)

text \<open>A revert reason of the contract, and the text of the guard.\<close>

theorem override_needs_expectedMessage_witness:
  "RegistrationEdgeTests_expectRevert acceptingClient
     (Inl (Obj (Error ''execution reverted: Insufficient stake'')) :: thrown + unit) None [] =
     (Inl (Obj (TypeError (''Cannot read properties of undefined (reading ''
                           @ [CHR 0x27] @ ''toLowerCase'' @ [CHR 0x27] @ '')''))), []) \<and>
   expectRevert acceptingClient
     (Inl (Obj (Error ''execution reverted: Insufficient stake'')) :: thrown + unit)
     None [] = (Inr (), []) \<and>
   RegistrationEdgeTests_expectRevert acceptingClient
     (Inl (Obj (Error ''Expected transaction to revert but it succeeded'')) :: thrown + unit)
     None [] = (Inl (Obj (Error ''Expected transaction to revert but it succeeded'')), [])"
  using
    override_needs_expectedMessage
      [where ?'a = unit, of "Error ''execution reverted: Insufficient stake''"
         acceptingClient "[]"]
    override_needs_expectedMessage
      [where ?'a = unit, of "Error ''Expected transaction to revert but it succeeded''"
         acceptingClient "[]"]
  by (simp add: not_sentinel sentinel_includes)

subsection \<open>The exit status of phase 1\<close>

lemma neverThrows_ret: "neverThrows (ret x)"
  by (simp add: neverThrows_def ret_def)

lemma neverThrows_andThen:
  "neverThrows m \<Longrightarrow> (\<And>x. neverThrows (f x)) \<Longrightarrow> neverThrows (andThen m f)"
  unfolding neverThrows_def andThen_def
proof
  fix s
  assume m: "\<forall>s. \<exists>x s'. m s = (Inr x, s')" and f: "\<And>x. \<forall>s. \<exists>y s'. f x s = (Inr y, s')"
  from m obtain x s1 where "m s = (Inr x, s1)" by blast
  moreover from f obtain y s2 where "f x s1 = (Inr y, s2)" by blast
  ultimately show "\<exists>y s'. (case m s of (Inl e, s') \<Rightarrow> (Inl e, s') | (Inr x, s') \<Rightarrow> f x s')
      = (Inr y, s')"
    by simp
qed

lemma neverThrows_log: "neverThrows (onConsole (console_log line))"
  by (simp add: neverThrows_def prog_defs)

lemma neverThrows_choice:
  "neverThrows a \<Longrightarrow> neverThrows b \<Longrightarrow> neverThrows (\<lambda>s. (if P s then a else b) s)"
  by (simp add: neverThrows_def)

lemma neverThrows_runTest: "neverThrows (runTest testName (anyValue body))"
  by (auto simp: neverThrows_def runTest_def prog_defs results_defs
      split: prod.splits sum.splits)

lemma neverThrows_printResults: "neverThrows printResults"
  unfolding neverThrows_def by (metis printResults_returns prod.collapse)

lemma neverThrows_testContractConstants:
  fixes body :: "('p, 'w, 'c) scenario"
  shows "neverThrows (testContractConstants body)"
  unfolding neverThrows_def
proof
  fix s :: "('p, 'w, 'c) hstate"
  have "neverThrows (andThen (runTest ''Contract Constants and Setup''
          (anyValue (body (this s))) :: (('p, 'w, 'c) hstate, bool) prog) (\<lambda>_. ret ()))"
    by (intro neverThrows_andThen neverThrows_runTest neverThrows_ret)
  then show "\<exists>x s'. testContractConstants body s = (Inr x, s')"
    by (simp add: neverThrows_def testContractConstants_def)
qed

lemma neverThrows_testBasicAPIRegistration:
  fixes body :: "('p, 'w, 'c) scenario"
  shows "neverThrows (testBasicAPIRegistration body)"
  unfolding neverThrows_def
proof
  fix s :: "('p, 'w, 'c) hstate"
  have "neverThrows (andThen (runTest ''Basic API Registration''
          (anyValue (body (this s))) :: (('p, 'w, 'c) hstate, bool) prog) (\<lambda>_. ret ()))"
    by (intro neverThrows_andThen neverThrows_runTest neverThrows_ret)
  then show "\<exists>x s'. testBasicAPIRegistration body s = (Inr x, s')"
    by (simp add: neverThrows_def testBasicAPIRegistration_def)
qed

lemma neverThrows_runFoundationTests:
  "neverThrows (runFoundationTests constantsBody registrationBody)"
  unfolding runFoundationTests_def
  by (intro neverThrows_andThen neverThrows_log neverThrows_choice
      neverThrows_testContractConstants neverThrows_testBasicAPIRegistration
      neverThrows_printResults)

lemma runFoundationTests_total:
  "\<exists>s'. runFoundationTests constantsBody registrationBody s = (Inr (), s')"
  using neverThrows_runFoundationTests [of constantsBody registrationBody]
  by (simp add: neverThrows_def)

text \<open>
  C8. The process of phase 1 exits with status 1 exactly when the body of the
  \<open>try\<close> in \<open>main\<close> throws, and with status 0 exactly when it returns. Whatever
  the two test functions do, \<open>runFoundationTests\<close> returns, so the body throws exactly
  when the constructor does: once the harness is constructed the status is 0, also when
  every scenario fails.
\<close>

theorem phase1_exit_status:
  "(fst (phase1_main lib cfg constantsBody registrationBody c) = 1 \<longleftrightarrow>
      (\<exists>e. fst (phase1_try lib cfg constantsBody registrationBody
                  \<lparr>this = blankObject, console = c\<rparr>) = Inl e)) \<and>
   (fst (phase1_main lib cfg constantsBody registrationBody c) = 0 \<longleftrightarrow>
      fst (phase1_try lib cfg constantsBody registrationBody
             \<lparr>this = blankObject, console = c\<rparr>) = Inr ()) \<and>
   ((\<exists>e. fst (phase1_try lib cfg constantsBody registrationBody
                \<lparr>this = blankObject, console = c\<rparr>) = Inl e) \<longleftrightarrow>
    (\<exists>e. fst (newTestBase lib cfg \<lparr>this = blankObject, console = c\<rparr>) = Inl e)) \<and>
   (fst (newTestBase lib cfg \<lparr>this = blankObject, console = c\<rparr>) = Inr () \<longrightarrow>
      fst (phase1_main lib cfg constantsBody registrationBody c) = 0)"
proof -
  let ?s0 = "\<lparr>this = blankObject, console = c\<rparr> :: ('a, 'b, 'c) hstate"
  have exit: "fst (phase1_main lib cfg constantsBody registrationBody c) =
      (case fst (phase1_try lib cfg constantsBody registrationBody ?s0) of
         Inl e \<Rightarrow> 1 | Inr u \<Rightarrow> 0)"
    by (simp add: phase1_main_def split: prod.splits sum.splits)
  have escapes: "(\<exists>e. fst (phase1_try lib cfg constantsBody registrationBody ?s0) = Inl e) \<longleftrightarrow>
      (\<exists>e. fst (newTestBase lib cfg ?s0) = Inl e)"
  proof (cases "newTestBase lib cfg ?s0")
    case (Pair r s1)
    show ?thesis
    proof (cases r)
      case (Inl e)
      with Pair show ?thesis by (simp add: phase1_try_def andThen_def)
    next
      case (Inr u)
      obtain s2 where "runFoundationTests constantsBody registrationBody s1 = (Inr (), s2)"
        using runFoundationTests_total by blast
      with Pair Inr show ?thesis by (simp add: phase1_try_def andThen_def)
    qed
  qed
  from exit escapes show ?thesis
    by (auto split: sum.splits)
qed

text \<open>
  With the address configured and two test functions that both throw, both scenarios
  are recorded as failed and the status is 0; with no address configured it is 1.
\<close>

theorem phase1_exit_status_witness:
  "fst (phase1_main acceptingClient exampleConfig
          (\<lambda>t. throw (Error ''Min stake should be 0.1 ETH''))
          (\<lambda>t. throw (Error ''Endpoint should match'')) []) = 0 \<and>
   results (this (snd (phase1_try acceptingClient exampleConfig
          (\<lambda>t. throw (Error ''Min stake should be 0.1 ETH''))
          (\<lambda>t. throw (Error ''Endpoint should match''))
          \<lparr>this = blankObject, console = []\<rparr>))) =
     \<lparr>passed = 0, failed = 2,
      errors = [''Contract Constants and Setup: Min stake should be 0.1 ETH'',
                ''Basic API Registration: Endpoint should match'']\<rparr> \<and>
   fst (phase1_main acceptingClient (loadConfig Map.empty)
          (\<lambda>t. throw (Error ''Min stake should be 0.1 ETH''))
          (\<lambda>t. throw (Error ''Endpoint should match'')) []) = 1"
proof -
  let ?b1 = "(\<lambda>t. throw (Error ''Min stake should be 0.1 ETH'')) :: (unit, unit, unit) scenario"
  let ?b2 = "(\<lambda>t. throw (Error ''Endpoint should match'')) :: (unit, unit, unit) scenario"
  let ?s0 = "\<lparr>this = blankObject, console = []\<rparr> :: (unit, unit, unit) hstate"
  have constructed: "fst (newTestBase acceptingClient exampleConfig ?s0) = Inr ()"
    by (simp add: newTestBase_def setupWallets_def exampleConfig_def loadConfig_def
        acceptingClient_def prog_defs)
  have refused: "fst (newTestBase acceptingClient (loadConfig Map.empty) ?s0) =
      Inl (Error (sym_cross @ '' Please set CONTRACT_ADDRESS in .env file''))"
    by (simp add: newTestBase_def setupWallets_def loadConfig_def prog_defs)
  have zero: "fst (phase1_main acceptingClient exampleConfig ?b1 ?b2 []) = 0"
    using phase1_exit_status [of acceptingClient exampleConfig ?b1 ?b2 "[]"] constructed
    by blast
  have one: "fst (phase1_main acceptingClient (loadConfig Map.empty) ?b1 ?b2 []) = 1"
    using phase1_exit_status [of acceptingClient "loadConfig Map.empty" ?b1 ?b2 "[]"] refused
    by blast
  have recorded: "results (this (snd (phase1_try acceptingClient exampleConfig ?b1 ?b2 ?s0))) =
     \<lparr>passed = 0, failed = 2,
      errors = [''Contract Constants and Setup: Min stake should be 0.1 ETH'',
                ''Basic API Registration: Endpoint should match'']\<rparr>"
    by (simp add: phase1_try_def runFoundationTests_def testContractConstants_def
        testBasicAPIRegistration_def runTest_def printResults_def results_defs
        newTestBase_def setupWallets_def exampleConfig_def loadConfig_def
        acceptingClient_def blankObject_def prog_defs Let_def)
  from zero recorded one show ?thesis
    by blast
qed

subsection \<open>The scenarios of phase 2 on a contract that rejects nothing\<close>

text \<open>
  C5 says that an operation that succeeds inside a block that expects it to fail is
  recorded as a failure of the scenario. The code does not do that: the error thrown after
  the operation succeeded is thrown inside the \<open>try\<close> and caught by its own
  \<open>catch\<close>, which prints it as the expected rejection. On the contract that accepts the
  registration with too small a stake, the one with an empty endpoint and the one with a
  zero price, \<open>runRegistrationTests\<close> returns with both scenarios recorded as passed
  and no error recorded, and the console shows the three errors under the words for an
  expected rejection.
\<close>

theorem unexpected_success_recorded_as_pass:
  "fst (runRegistrationTests acceptingClient exampleHarness) = Inr () \<and>
   results (this (snd (runRegistrationTests acceptingClient exampleHarness))) =
     \<lparr>passed = 2, failed = 0, errors = []\<rparr> \<and>
   Log (''   '' @ sym_check @ '' Transaction properly reverted: ''
        @ ''Transaction should have reverted due to insufficient stake'')
     \<in> set (console (snd (runRegistrationTests acceptingClient exampleHarness))) \<and>
   Log (''   '' @ sym_check @ '' Empty endpoint properly rejected: ''
        @ ''Empty endpoint should have been rejected'')
     \<in> set (console (snd (runRegistrationTests acceptingClient exampleHarness))) \<and>
   Log (''   '' @ sym_check @ '' Zero price properly rejected: ''
        @ ''Zero price should have been rejected'')
     \<in> set (console (snd (runRegistrationTests acceptingClient exampleHarness)))"
  by (simp add: runRegistrationTests_def testInsufficientStake_def testInvalidParameters_def
      runTest_def printResults_def results_defs
      insufficientStake_body_def invalidParameters_body_def acceptingClient_def exampleHarness_def
      prog_defs member_def assert_def Let_def findEvent_eq decodesTo_def
      registeredLog_def strayLog_def transferLog_def
      lower_should_have_reverted includes_insufficient_stake showNat_0 showNat_2 showNat_4)

end
